theory Spec2Isabelle
  imports Main "HOL-Library.Word"
begin

section \<open>Go strings and the library functions the middleware calls\<close>

text \<open>
  A Go string is a sequence of bytes; it is modelled as a \<^typ>\<open>string\<close>, one
  \<^typ>\<open>char\<close> per byte. The functions of this section are the parts of Go's
  \<^verbatim>\<open>strings\<close> package and of the language that \<^verbatim>\<open>middleware/cors.go\<close>
  calls.
\<close>

text \<open>
  \<^verbatim>\<open>strings.Index(s, sep)\<close>: the position of the first occurrence of \<open>sep\<close> in
  \<open>s\<close>, \<open>None\<close> for Go's \<open>-1\<close>.
\<close>

fun Index :: "string \<Rightarrow> string \<Rightarrow> nat option" where
  "Index [] sep = (if sep = [] then Some 0 else None)"
| "Index (c # cs) sep =
     (if take (length sep) (c # cs) = sep then Some 0
      else map_option Suc (Index cs sep))"

lemma Index_bound: "Index s sep = Some m \<Longrightarrow> m + length sep \<le> length s"
proof (induction s arbitrary: m)
  case Nil
  then show ?case by (simp split: if_splits)
next
  case (Cons c cs)
  show ?case
  proof (cases "take (length sep) (c # cs) = sep")
    case True
    then have "length sep = min (length (c # cs)) (length sep)"
      by (metis length_take)
    then have "length sep \<le> length (c # cs)"
      by linarith
    with True Cons.prems show ?thesis by simp
  next
    case False
    with Cons.prems obtain k where "Index cs sep = Some k" and "m = Suc k"
      by auto
    with Cons.IH [of k] show ?thesis by simp
  qed
qed

text \<open>
  \<^verbatim>\<open>strings.Split(s, sep)\<close> for a non-empty separator: the substrings between the
  successive, non-overlapping occurrences of \<open>sep\<close>, found from the left; one more
  element than there are occurrences, so never the empty slice. The middleware only
  ever passes the separator \<^verbatim>\<open>", "\<close>; Go's treatment of the empty separator
  (one element per UTF-8 sequence) is not part of the model, which returns \<open>[s]\<close> there.
\<close>

function Split :: "string \<Rightarrow> string \<Rightarrow> string list" where
  "Split s sep =
     (if sep = [] then [s]
      else case Index s sep of
             None \<Rightarrow> [s]
           | Some m \<Rightarrow> take m s # Split (drop (m + length sep) s) sep)"
  by pat_completeness auto
termination
proof (relation "measure (\<lambda>(s, sep). length s)")
  show "wf (measure (\<lambda>(s, sep). length s))" by simp
next
  fix s sep :: string and m :: nat
  assume "sep \<noteq> []" and "Index s sep = Some m"
  then have "m + length sep \<le> length s" and "length sep \<noteq> 0"
    using Index_bound [of s sep m] by auto
  then have "length s - (m + length sep) < length s"
    by linarith
  then show "((drop (m + length sep) s, sep), (s, sep)) \<in> measure (\<lambda>(s, sep). length s)"
    by simp
qed

declare Split.simps [simp del]

text \<open>
  \<^verbatim>\<open>strings.ToUpper(s)\<close>. For a string of ASCII bytes only, Go maps each byte
  \<^verbatim>\<open>'a'..'z'\<close> to \<^verbatim>\<open>'A'..'Z'\<close> (\<^verbatim>\<open>c -= 'a' - 'A'\<close>) and leaves every other
  byte as it is. For a string with a byte \<open>\<ge> 0x80\<close> it returns
  \<^verbatim>\<open>Map(unicode.ToUpper, s)\<close>, the upper-case mapping of the Unicode tables applied
  to the decoded runes. Those tables belong to the Go distribution, not to this
  repository, so that branch is a parameter \<open>unicodeUpper\<close> of the model.
\<close>

definition upper_byte :: "char \<Rightarrow> char" where
  "upper_byte c =
     (if (97::nat) \<le> of_char c \<and> of_char c \<le> (122::nat)
      then char_of (of_char c - (32::nat)) else c)"

definition isASCII :: "string \<Rightarrow> bool" where
  "isASCII s = list_all (\<lambda>c. of_char c < (128::nat)) s"

definition ToUpper :: "(string \<Rightarrow> string) \<Rightarrow> string \<Rightarrow> string" where
  "ToUpper unicodeUpper s = (if isASCII s then map upper_byte s else unicodeUpper s)"

text \<open>
  The conversion \<^verbatim>\<open>string(n)\<close> of an integer \<open>n\<close>: by the Go language
  specification the result is the UTF-8 encoding of the code point \<open>n\<close>, and of the
  replacement character U+FFFD when \<open>n\<close> is not a valid code point (a surrogate, or
  above U+10FFFF). \<open>EncodeRune\<close> is the encoder of valid code points.
\<close>

definition EncodeRune :: "nat \<Rightarrow> string" where
  "EncodeRune r =
     (if r < 128 then [char_of r]
      else if r < 2048 then [char_of (192 + r div 64), char_of (128 + r mod 64)]
      else if r < 65536 then
        [char_of (224 + r div 4096), char_of (128 + (r div 64) mod 64),
         char_of (128 + r mod 64)]
      else
        [char_of (240 + r div 262144), char_of (128 + (r div 4096) mod 64),
         char_of (128 + (r div 64) mod 64), char_of (128 + r mod 64)])"

definition string_of_uint32 :: "32 word \<Rightarrow> string" where
  "string_of_uint32 n =
     (let r = unat n in
      if 1114111 < r \<or> (55296 \<le> r \<and> r \<le> 57343) then EncodeRune 65533
      else EncodeRune r)"

section \<open>The CORS configuration and its matchers\<close>

record CORSConfig =
  AllowedOrigins :: "string list"
  AllowedMethods :: "string list"
  AllowedHeaders :: "string list"
  SupportsCredentials :: bool
  MaxAge :: "32 word"

text \<open>
  The loop \<^verbatim>\<open>for _, o := range xs { if x == o { return true } }; return false\<close>
  of \<open>OriginSupported\<close> and \<open>MethodSupported\<close>.
\<close>

fun range_equal :: "string \<Rightarrow> string list \<Rightarrow> bool" where
  "range_equal x [] = False"
| "range_equal x (y # ys) = (if x = y then True else range_equal x ys)"

definition OriginSupported :: "CORSConfig \<Rightarrow> string \<Rightarrow> bool" where
  "OriginSupported c requestOrigin =
     (if requestOrigin = [] then False
      else range_equal requestOrigin (AllowedOrigins c))"

definition MethodSupported :: "CORSConfig \<Rightarrow> string \<Rightarrow> bool" where
  "MethodSupported c requestMethod =
     (if requestMethod = [] then False
      else range_equal requestMethod (AllowedMethods c))"

text \<open>
  The inner loop of \<open>HeadersSupported\<close>: \<open>supported\<close> starts false and becomes true
  at the first allowed header whose upper-cased form equals the upper-cased request
  header.
\<close>

fun header_supported :: "(string \<Rightarrow> string) \<Rightarrow> string \<Rightarrow> string list \<Rightarrow> bool" where
  "header_supported U requestHeader [] = False"
| "header_supported U requestHeader (supportedHeader # rest) =
     (if ToUpper U requestHeader = ToUpper U supportedHeader then True
      else header_supported U requestHeader rest)"

text \<open>The outer loop: the first request header that is not supported returns false.\<close>

fun headers_loop :: "(string \<Rightarrow> string) \<Rightarrow> CORSConfig \<Rightarrow> string list \<Rightarrow> bool" where
  "headers_loop U c [] = True"
| "headers_loop U c (requestHeader # rest) =
     (if \<not> header_supported U requestHeader (AllowedHeaders c) then False
      else headers_loop U c rest)"

definition HeadersSupported :: "(string \<Rightarrow> string) \<Rightarrow> CORSConfig \<Rightarrow> string list \<Rightarrow> bool" where
  "HeadersSupported U c requestHeaderFieldNames =
     (if length requestHeaderFieldNames = 0 then True
      else headers_loop U c requestHeaderFieldNames)"

section \<open>Requests, response writers and handlers\<close>

text \<open>
  \<^verbatim>\<open>http.Header\<close> is \<^verbatim>\<open>map[string][]string\<close>. Its methods \<open>Get\<close> and \<open>Set\<close>
  first bring the key into canonical MIME form; every key the middleware passes
  (\<^verbatim>\<open>"Origin"\<close>, \<^verbatim>\<open>"Access-Control-Request-Method"\<close>, ...) is in that form already,
  so the maps of the model are keyed by canonical names and the key is used as it is.
  \<open>Get\<close> returns the first value of the key, and the empty string when the key is
  absent or has no value.
\<close>

type_synonym HTTPHeader = "string \<rightharpoonup> string list"

definition Header_Get :: "HTTPHeader \<Rightarrow> string \<Rightarrow> string" where
  "Header_Get h key =
     (case h key of None \<Rightarrow> [] | Some vs \<Rightarrow> (case vs of [] \<Rightarrow> [] | v # _ \<Rightarrow> v))"

definition Header_Set :: "HTTPHeader \<Rightarrow> string \<Rightarrow> string \<Rightarrow> HTTPHeader" where
  "Header_Set h key v = h(key \<mapsto> [v])"

text \<open>
  Of \<^verbatim>\<open>*http.Request\<close> the middleware reads the method and the header; the other
  fields are the extension of the record.
\<close>

record Request =
  Method :: string
  Header :: HTTPHeader

text \<open>
  An \<^verbatim>\<open>http.ResponseWriter\<close>: the header map returned by \<^verbatim>\<open>w.Header()\<close>, the
  status code sent by \<open>WriteHeader\<close> (\<open>None\<close> as long as none was sent) and the body
  bytes written so far. As in \<^verbatim>\<open>net/http\<close>, the first \<open>WriteHeader\<close> decides the
  status and a later call changes nothing.
\<close>

record ResponseWriter =
  wHeader :: HTTPHeader
  wStatus :: "nat option"
  wBody :: string

definition WriteHeader :: "nat \<Rightarrow> ResponseWriter \<Rightarrow> ResponseWriter" where
  "WriteHeader code w = (case wStatus w of None \<Rightarrow> w\<lparr>wStatus := Some code\<rparr> | Some _ \<Rightarrow> w)"

definition set_header :: "string \<Rightarrow> string \<Rightarrow> ResponseWriter \<Rightarrow> ResponseWriter" where
  \<comment> \<open>\<^verbatim>\<open>w.Header().Set(key, value)\<close>\<close>
  "set_header key v w = w\<lparr>wHeader := Header_Set (wHeader w) key v\<rparr>"

abbreviation StatusOK :: nat where "StatusOK \<equiv> 200"
abbreviation StatusBadRequest :: nat where "StatusBadRequest \<equiv> 400"

abbreviation MethodGet :: string where "MethodGet \<equiv> ''GET''"
abbreviation MethodHead :: string where "MethodHead \<equiv> ''HEAD''"
abbreviation MethodPost :: string where "MethodPost \<equiv> ''POST''"
abbreviation MethodPut :: string where "MethodPut \<equiv> ''PUT''"
abbreviation MethodPatch :: string where "MethodPatch \<equiv> ''PATCH''"
abbreviation MethodDelete :: string where "MethodDelete \<equiv> ''DELETE''"
abbreviation MethodConnect :: string where "MethodConnect \<equiv> ''CONNECT''"
abbreviation MethodOptions :: string where "MethodOptions \<equiv> ''OPTIONS''"
abbreviation MethodTrace :: string where "MethodTrace \<equiv> ''TRACE''"

text \<open>
  The inner handler \<open>next\<close> is any function from the response writer and the request
  to the response writer it leaves behind. Serving a request runs on a state that
  holds the response writer and, as a ghost field, the list of the requests that were
  handed to \<^verbatim>\<open>next.ServeHTTP\<close>, in order: the middleware appends to it exactly where
  the source makes that call.
\<close>

type_synonym 'a Handler = "ResponseWriter \<Rightarrow> 'a Request_scheme \<Rightarrow> ResponseWriter"

record 'a ServeState =
  writer :: ResponseWriter
  forwarded :: "'a Request_scheme list"

definition ServeHTTP :: "'a Handler \<Rightarrow> 'a Request_scheme \<Rightarrow> 'a ServeState \<Rightarrow> 'a ServeState" where
  \<comment> \<open>\<^verbatim>\<open>next.ServeHTTP(w, r)\<close>\<close>
  "ServeHTTP next r s = s\<lparr>writer := next (writer s) r, forwarded := forwarded s @ [r]\<rparr>"

section \<open>The preflight negotiator\<close>

text \<open>
  \<open>WithCORSConfig next c\<close> is the handler the source returns; \<open>U\<close> is the parameter
  of \<open>ToUpper\<close>. The source's test \<^verbatim>\<open>!a || !b || !c\<close> is written \<open>\<not> (a \<and> b \<and> c)\<close>.
\<close>

definition WithCORSConfig ::
  "(string \<Rightarrow> string) \<Rightarrow> 'a Handler \<Rightarrow> CORSConfig \<Rightarrow> 'a ServeState \<Rightarrow> 'a Request_scheme
     \<Rightarrow> 'a ServeState" where
  "WithCORSConfig U next c s r =
     (if Method r = MethodOptions then
        (let origin = Header_Get (Header r) ''Origin'';
             method = Header_Get (Header r) ''Access-Control-Request-Method'';
             headerFieldNames =
               Split (Header_Get (Header r) ''Access-Control-Request-Headers'') '', ''
         in if \<not> (OriginSupported c origin \<and> MethodSupported c method \<and>
                   HeadersSupported U c headerFieldNames)
            then s\<lparr>writer := WriteHeader StatusBadRequest (writer s)\<rparr>
            else
              (let w1 = (if SupportsCredentials c
                         then set_header ''Access-Control-Allow-Credentials'' ''true'' (writer s)
                         else writer s);
                   w2 = set_header ''Access-Control-Allow-Origin'' origin w1;
                   w3 = (if MaxAge c \<noteq> 0
                         then set_header ''Access-Control-Max-Age''
                                (string_of_uint32 (MaxAge c)) w2
                         else w2)
               in s\<lparr>writer := WriteHeader StatusOK w3\<rparr>))
      else ServeHTTP next r s)"

text \<open>
  The configuration \<open>defaultCfg\<close> built inside \<open>WithCORS\<close>; the fields the source
  leaves out have Go's zero values.
\<close>

definition defaultCfg :: CORSConfig where
  "defaultCfg =
     \<lparr>AllowedOrigins = [''*''],
      AllowedMethods =
        [MethodConnect, MethodDelete, MethodGet, MethodHead, MethodOptions, MethodPatch,
         MethodPost, MethodPut, MethodTrace],
      AllowedHeaders = [''Content-Type''],
      SupportsCredentials = False,
      MaxAge = 0\<rparr>"

definition WithCORS ::
  "(string \<Rightarrow> string) \<Rightarrow> 'a Handler \<Rightarrow> 'a ServeState \<Rightarrow> 'a Request_scheme \<Rightarrow> 'a ServeState" where
  "WithCORS U next = WithCORSConfig U next defaultCfg"

section \<open>The mock document store\<close>

text \<open>
  \<open>MockDB\<close> holds \<^verbatim>\<open>map[string]map[string]interface{}\<close>: collections by path,
  and in a collection the documents by id. A collection that is absent from the outer
  map reads as Go's nil map, which can be read (every key is missing) but not
  assigned to. A document is a value of any dynamic type: a \<open>User\<close>, or something
  else (a \<open>Program\<close>, a \<open>Class\<close>, nil). Of the struct \<open>User\<close>, declared outside the
  files at hand, the methods below use the field \<open>UID\<close>; its other fields are the
  extension of the record. The path constants \<open>usersPath\<close>, \<open>programsPath\<close> and
  \<open>classesPath\<close> are declared outside these files too and are parameters.
\<close>

record User =
  UID :: string

datatype ('u, 'x) document = UserVal 'u | OtherVal 'x

record ('u, 'x) MockDB =
  db :: "string \<rightharpoonup> (string \<rightharpoonup> ('u, 'x) document)"

datatype panic = AssignmentToEntryInNilMap

definition OpenMock :: "string \<Rightarrow> string \<Rightarrow> string \<Rightarrow> ('u, 'x) MockDB" where
  "OpenMock usersPath programsPath classesPath =
     \<lparr>db = Map.empty(usersPath \<mapsto> Map.empty, programsPath \<mapsto> Map.empty,
                       classesPath \<mapsto> Map.empty)\<rparr>"

text \<open>
  \<open>LoadUser\<close>: the type assertion \<^verbatim>\<open>d.db[usersPath][uid].(User)\<close> succeeds when the
  document exists and is a \<open>User\<close>; otherwise the error \<^verbatim>\<open>"invalid user ID"\<close> is
  returned (\<open>Inl\<close>). \<open>Inr u\<close> is the return of \<open>u\<close> with a nil error.
\<close>

definition LoadUser ::
  "string \<Rightarrow> ('a User_scheme, 'x) MockDB \<Rightarrow> string \<Rightarrow> string + 'a User_scheme" where
  "LoadUser usersPath d uid =
     (case db d usersPath of
        None \<Rightarrow> Inl ''invalid user ID''
      | Some users \<Rightarrow>
          (case users uid of
             Some (UserVal u) \<Rightarrow> Inr u
           | _ \<Rightarrow> Inl ''invalid user ID''))"

text \<open>
  \<open>StoreUser\<close>: the assignment \<^verbatim>\<open>d.db[usersPath][u.UID] = u\<close> panics when the
  collection is the nil map; otherwise the store is updated and the error returned is
  nil (\<open>None\<close>).
\<close>

definition StoreUser ::
  "string \<Rightarrow> ('a User_scheme, 'x) MockDB \<Rightarrow> 'a User_scheme
     \<Rightarrow> panic + (('a User_scheme, 'x) MockDB \<times> string option)" where
  "StoreUser usersPath d u =
     (case db d usersPath of
        None \<Rightarrow> Inl AssignmentToEntryInNilMap
      | Some users \<Rightarrow>
          Inr (d\<lparr>db := (db d)(usersPath \<mapsto> users(UID u \<mapsto> UserVal u))\<rparr>, None))"

definition DeleteUser ::
  "string \<Rightarrow> ('u, 'x) MockDB \<Rightarrow> string \<Rightarrow> ('u, 'x) MockDB \<times> string option" where
  \<comment> \<open>\<^verbatim>\<open>delete\<close> on a nil map is a no-op\<close>
  "DeleteUser usersPath d uid =
     (case db d usersPath of
        None \<Rightarrow> (d, None)
      | Some users \<Rightarrow> (d\<lparr>db := (db d)(usersPath \<mapsto> users(uid := None))\<rparr>, None))"

text \<open>
  The two calls of the round trip, \<^verbatim>\<open>d.StoreUser(ctx, u)\<close> followed by
  \<^verbatim>\<open>d.LoadUser(ctx, u.UID)\<close>: a panic of the first call ends the run, otherwise
  the result is what \<open>LoadUser\<close> returns on the updated store.
\<close>

definition store_then_load ::
  "string \<Rightarrow> ('a User_scheme, 'x) MockDB \<Rightarrow> 'a User_scheme
     \<Rightarrow> panic + (string + 'a User_scheme)" where
  "store_then_load usersPath d u =
     (case StoreUser usersPath d u of
        Inl p \<Rightarrow> Inl p
      | Inr (d', err) \<Rightarrow> Inr (LoadUser usersPath d' (UID u)))"

section \<open>Notions of the specification\<close>

text \<open>
  The decimal representation of a number, as \<^verbatim>\<open>strconv.Itoa\<close> would give it: what
  the specification asks the \<^verbatim>\<open>Access-Control-Max-Age\<close> header to carry.
\<close>

fun decimal :: "nat \<Rightarrow> string" where
  "decimal n =
     (if n < 10 then [char_of (48 + n)]
      else decimal (n div 10) @ [char_of (48 + n mod 10)])"

declare decimal.simps [simp del]

text \<open>
  ASCII case-insensitive equality of two strings: equal after each byte
  \<^verbatim>\<open>'A'..'Z'\<close> is replaced by its lower-case letter, every other byte compared as
  it is.
\<close>

definition lower_byte :: "char \<Rightarrow> char" where
  "lower_byte c =
     (if (65::nat) \<le> of_char c \<and> of_char c \<le> (90::nat)
      then char_of (of_char c + (32::nat)) else c)"

definition ascii_ci_equal :: "string \<Rightarrow> string \<Rightarrow> bool" where
  "ascii_ci_equal a b = (map lower_byte a = map lower_byte b)"

section \<open>Sample configurations, requests and handlers\<close>

text \<open>Concrete inputs, at which the theorems below are instantiated.\<close>

definition sample_cfg :: CORSConfig where
  "sample_cfg =
     \<lparr>AllowedOrigins = [''https://a.test''], AllowedMethods = [''POST''],
      AllowedHeaders = [''Content-Type''], SupportsCredentials = True, MaxAge = 0\<rparr>"

definition sample_preflight :: Request where
  "sample_preflight =
     \<lparr>Method = ''OPTIONS'',
      Header = [''Origin'' \<mapsto> [''https://a.test''],
                ''Access-Control-Request-Method'' \<mapsto> [''POST''],
                ''Access-Control-Request-Headers'' \<mapsto> [''content-type'']]\<rparr>"

definition fresh :: "unit ServeState" where
  "fresh = \<lparr>writer = \<lparr>wHeader = Map.empty, wStatus = None, wBody = []\<rparr>, forwarded = []\<rparr>"

definition foreign_preflight :: Request where
  "foreign_preflight =
     \<lparr>Method = ''OPTIONS'',
      Header = [''Origin'' \<mapsto> [''https://b.test''],
                ''Access-Control-Request-Method'' \<mapsto> [''POST''],
                ''Access-Control-Request-Headers'' \<mapsto> [''content-type'']]\<rparr>"

definition anonymous_preflight :: Request where
  "anonymous_preflight =
     \<lparr>Method = ''OPTIONS'',
      Header = [''Access-Control-Request-Method'' \<mapsto> [''POST''],
                ''Access-Control-Request-Headers'' \<mapsto> [''content-type'']]\<rparr>"

definition sample_get :: Request where
  "sample_get = \<lparr>Method = ''GET'', Header = [''Origin'' \<mapsto> [''https://a.test'']]\<rparr>"

definition sample_inner :: "unit Handler" where
  "sample_inner w r = (WriteHeader StatusOK w)\<lparr>wBody := wBody w @ ''hello''\<rparr>"

definition max_age_cfg :: CORSConfig where
  "max_age_cfg =
     \<lparr>AllowedOrigins = [''https://a.test''], AllowedMethods = [''POST''],
      AllowedHeaders = [''Content-Type''], SupportsCredentials = False, MaxAge = 600\<rparr>"

definition bare_preflight :: Request where
  \<comment> \<open>a preflight without an \<^verbatim>\<open>Access-Control-Request-Headers\<close> header\<close>
  "bare_preflight =
     \<lparr>Method = ''OPTIONS'',
      Header = [''Origin'' \<mapsto> [''*''], ''Access-Control-Request-Method'' \<mapsto> [''GET'']]\<rparr>"

definition authorization_cfg :: CORSConfig where
  "authorization_cfg =
     \<lparr>AllowedOrigins = [''https://a.test''], AllowedMethods = [''POST''],
      AllowedHeaders = [''Authorization''], SupportsCredentials = False, MaxAge = 0\<rparr>"

definition dotless_name :: string where
  \<comment> \<open>\<^verbatim>\<open>Authorization\<close> with its first \<^verbatim>\<open>i\<close> replaced by U+0131, the dotless i
     (UTF-8 bytes C4 B1)\<close>
  "dotless_name = ''Author'' @ [CHR 0xC4, CHR 0xB1] @ ''zation''"

definition zero_MockDB :: "(User, unit) MockDB" where
  \<comment> \<open>the zero value \<^verbatim>\<open>MockDB{}\<close>: the outer map is nil, no collection exists\<close>
  "zero_MockDB = \<lparr>db = Map.empty\<rparr>"

section \<open>Properties of the negotiator\<close>

lemma WithCORSConfig_reject:
  assumes "Method r = MethodOptions"
    and "\<not> (OriginSupported c (Header_Get (Header r) ''Origin'') \<and>
            MethodSupported c (Header_Get (Header r) ''Access-Control-Request-Method'') \<and>
            HeadersSupported U c
              (Split (Header_Get (Header r) ''Access-Control-Request-Headers'') '', ''))"
  shows "WithCORSConfig U next c s r = s\<lparr>writer := WriteHeader StatusBadRequest (writer s)\<rparr>"
  using assms by (simp add: WithCORSConfig_def Let_def)

lemma WithCORSConfig_accept:
  assumes "Method r = MethodOptions"
    and "OriginSupported c (Header_Get (Header r) ''Origin'')"
    and "MethodSupported c (Header_Get (Header r) ''Access-Control-Request-Method'')"
    and "HeadersSupported U c
              (Split (Header_Get (Header r) ''Access-Control-Request-Headers'') '', '')"
  shows "WithCORSConfig U next c s r =
     s\<lparr>writer := WriteHeader StatusOK
        ((if MaxAge c \<noteq> 0
          then set_header ''Access-Control-Max-Age'' (string_of_uint32 (MaxAge c))
          else id)
         (set_header ''Access-Control-Allow-Origin'' (Header_Get (Header r) ''Origin'')
           ((if SupportsCredentials c
             then set_header ''Access-Control-Allow-Credentials'' ''true''
             else id) (writer s))))\<rparr>"
  using assms by (simp add: WithCORSConfig_def Let_def)

lemma WriteHeader_fresh: "wStatus w = None \<Longrightarrow> WriteHeader code w = w\<lparr>wStatus := Some code\<rparr>"
  by (simp add: WriteHeader_def)

lemma wStatus_set_header [simp]: "wStatus (set_header k v w) = wStatus w"
  by (simp add: set_header_def)

lemma wBody_set_header [simp]: "wBody (set_header k v w) = wBody w"
  by (simp add: set_header_def)

lemma wHeader_set_header [simp]: "wHeader (set_header k v w) = (wHeader w)(k \<mapsto> [v])"
  by (simp add: set_header_def Header_Set_def)

lemma wHeader_WriteHeader [simp]: "wHeader (WriteHeader code w) = wHeader w"
  by (simp add: WriteHeader_def split: option.splits)

lemma ToUpper_ascii: "isASCII s \<Longrightarrow> ToUpper U s = map upper_byte s"
  by (simp add: ToUpper_def)

lemma Split_no_sep: "Index s sep = None \<Longrightarrow> Split s sep = [s]"
  by (simp add: Split.simps)

lemma Split_sample: "Split ''content-type'' '', '' = [''content-type'']"
  by code_simp

lemma Split_empty: "Split [] '', '' = [[]]"
  by (simp add: Split.simps)

lemma upper_sample:
  "isASCII ''content-type'' \<and> isASCII ''Content-Type'' \<and>
   map upper_byte ''content-type'' = ''CONTENT-TYPE'' \<and>
   map upper_byte ''Content-Type'' = ''CONTENT-TYPE''"
  by code_simp

lemma headers_sample: "header_supported U ''content-type'' [''Content-Type'']"
  using upper_sample by (simp add: ToUpper_ascii)

lemma sample_headers: "HeadersSupported (\<lambda>s. s) sample_cfg [''content-type'']"
  using headers_sample [of "\<lambda>s. s"] by (simp add: HeadersSupported_def sample_cfg_def)

text \<open>
  Claim C1. For every configuration and every \<open>OPTIONS\<close> request whose \<open>Origin\<close>,
  \<open>Access-Control-Request-Method\<close> and \<open>Access-Control-Request-Headers\<close> values pass
  the three matchers, on a response writer that has not sent a status yet: the
  negotiator sets \<open>Access-Control-Allow-Origin\<close> to the request's \<open>Origin\<close> value,
  sets \<open>Access-Control-Allow-Credentials\<close> to \<open>"true"\<close> when \<open>SupportsCredentials\<close>
  holds and leaves that header as it was otherwise, sends status 200 and writes no
  byte of body.
\<close>

theorem preflight_accept:
  assumes "Method r = MethodOptions"
    and "wStatus (writer s) = None"
    and "OriginSupported c (Header_Get (Header r) ''Origin'')"
    and "MethodSupported c (Header_Get (Header r) ''Access-Control-Request-Method'')"
    and "HeadersSupported U c
              (Split (Header_Get (Header r) ''Access-Control-Request-Headers'') '', '')"
  shows "wHeader (writer (WithCORSConfig U next c s r)) ''Access-Control-Allow-Origin'' =
           Some [Header_Get (Header r) ''Origin''] \<and>
         wHeader (writer (WithCORSConfig U next c s r)) ''Access-Control-Allow-Credentials'' =
           (if SupportsCredentials c then Some [''true'']
            else wHeader (writer s) ''Access-Control-Allow-Credentials'') \<and>
         wStatus (writer (WithCORSConfig U next c s r)) = Some StatusOK \<and>
         wBody (writer (WithCORSConfig U next c s r)) = wBody (writer s)"
  using assms by (simp add: WithCORSConfig_accept WriteHeader_fresh)

theorem preflight_accept_witness:
  "Method sample_preflight = MethodOptions \<and>
   wStatus (writer fresh) = None \<and>
   OriginSupported sample_cfg (Header_Get (Header sample_preflight) ''Origin'') \<and>
   MethodSupported sample_cfg
     (Header_Get (Header sample_preflight) ''Access-Control-Request-Method'') \<and>
   HeadersSupported (\<lambda>s. s) sample_cfg
     (Split (Header_Get (Header sample_preflight) ''Access-Control-Request-Headers'') '', '') \<and>
   wHeader (writer (WithCORSConfig (\<lambda>s. s) (\<lambda>w r. w) sample_cfg fresh sample_preflight))
     ''Access-Control-Allow-Origin'' = Some [''https://a.test''] \<and>
   wHeader (writer (WithCORSConfig (\<lambda>s. s) (\<lambda>w r. w) sample_cfg fresh sample_preflight))
     ''Access-Control-Allow-Credentials'' = Some [''true''] \<and>
   wStatus (writer (WithCORSConfig (\<lambda>s. s) (\<lambda>w r. w) sample_cfg fresh sample_preflight)) =
     Some StatusOK \<and>
   wBody (writer (WithCORSConfig (\<lambda>s. s) (\<lambda>w r. w) sample_cfg fresh sample_preflight)) = []"
proof -
  have m: "Method sample_preflight = MethodOptions"
    by (simp add: sample_preflight_def)
  have f: "wStatus (writer fresh) = None"
    by (simp add: fresh_def)
  have og: "Header_Get (Header sample_preflight) ''Origin'' = ''https://a.test''"
    by (simp add: sample_preflight_def Header_Get_def)
  have mg: "Header_Get (Header sample_preflight) ''Access-Control-Request-Method'' = ''POST''"
    by (simp add: sample_preflight_def Header_Get_def)
  have hg: "Header_Get (Header sample_preflight) ''Access-Control-Request-Headers'' =
      ''content-type''"
    by (simp add: sample_preflight_def Header_Get_def)
  have a: "OriginSupported sample_cfg (Header_Get (Header sample_preflight) ''Origin'')"
    by (simp add: og OriginSupported_def sample_cfg_def)
  have b: "MethodSupported sample_cfg
      (Header_Get (Header sample_preflight) ''Access-Control-Request-Method'')"
    by (simp add: mg MethodSupported_def sample_cfg_def)
  have c: "HeadersSupported (\<lambda>s. s) sample_cfg
      (Split (Header_Get (Header sample_preflight) ''Access-Control-Request-Headers'') '', '')"
    by (simp add: hg Split_sample sample_headers)
  have cr: "SupportsCredentials sample_cfg"
    by (simp add: sample_cfg_def)
  have bd: "wBody (writer fresh) = []"
    by (simp add: fresh_def)
  show ?thesis
    using preflight_accept [OF m f a b c, of "\<lambda>w r. w"] m f a b c
    by (simp add: og cr bd)
qed

text \<open>
  Claim C2. For every configuration and every \<open>OPTIONS\<close> request for which one of
  \<open>OriginSupported\<close>, \<open>MethodSupported\<close>, \<open>HeadersSupported\<close> is false, the negotiator
  sends status 400 and sets no response header; the state it leaves is the initial
  one with the status 400, so it does not depend on the request, the configuration or
  the conjunct that failed.
\<close>

theorem preflight_reject:
  assumes "Method r = MethodOptions"
    and "wStatus (writer s) = None"
    and "\<not> OriginSupported c (Header_Get (Header r) ''Origin'') \<or>
         \<not> MethodSupported c (Header_Get (Header r) ''Access-Control-Request-Method'') \<or>
         \<not> HeadersSupported U c
              (Split (Header_Get (Header r) ''Access-Control-Request-Headers'') '', '')"
  shows "WithCORSConfig U next c s r = s\<lparr>writer := (writer s)\<lparr>wStatus := Some StatusBadRequest\<rparr>\<rparr> \<and>
         wStatus (writer (WithCORSConfig U next c s r)) = Some StatusBadRequest \<and>
         wHeader (writer (WithCORSConfig U next c s r)) = wHeader (writer s)"
proof -
  from assms(3) have "\<not> (OriginSupported c (Header_Get (Header r) ''Origin'') \<and>
      MethodSupported c (Header_Get (Header r) ''Access-Control-Request-Method'') \<and>
      HeadersSupported U c
        (Split (Header_Get (Header r) ''Access-Control-Request-Headers'') '', ''))"
    by blast
  with assms(1) have "WithCORSConfig U next c s r =
      s\<lparr>writer := WriteHeader StatusBadRequest (writer s)\<rparr>"
    by (rule WithCORSConfig_reject)
  with assms(2) show ?thesis
    by (simp add: WriteHeader_fresh)
qed

theorem preflight_reject_witness:
  "Method foreign_preflight = MethodOptions \<and>
   wStatus (writer fresh) = None \<and>
   \<not> OriginSupported sample_cfg (Header_Get (Header foreign_preflight) ''Origin'') \<and>
   WithCORSConfig (\<lambda>s. s) (\<lambda>w r. w) sample_cfg fresh foreign_preflight =
     \<lparr>writer = \<lparr>wHeader = Map.empty, wStatus = Some StatusBadRequest, wBody = []\<rparr>,
      forwarded = []\<rparr>"
proof -
  have m: "Method foreign_preflight = MethodOptions"
    by (simp add: foreign_preflight_def)
  have f: "wStatus (writer fresh) = None"
    by (simp add: fresh_def)
  have a: "\<not> OriginSupported sample_cfg (Header_Get (Header foreign_preflight) ''Origin'')"
    by (simp add: foreign_preflight_def Header_Get_def OriginSupported_def sample_cfg_def)
  show ?thesis
    using preflight_reject [OF m f disjI1 [OF a], of "\<lambda>s. s" "\<lambda>w r. w"] m f a
    by (simp add: fresh_def)
qed

subsection \<open>The max-age header\<close>

lemma of_char_char_of_nat: "n < 256 \<Longrightarrow> of_char (char_of n) = (n::nat)"
  by simp

lemma decimal_digits: "c \<in> set (decimal n) \<Longrightarrow> (of_char c :: nat) \<le> 57"
proof (induction n rule: decimal.induct)
  case (1 n)
  show ?case
  proof (cases "n < 10")
    case True
    with "1.prems" have "c = char_of (48 + n)"
      by (simp add: decimal.simps [of n])
    with True show ?thesis
      by (simp add: of_char_char_of_nat)
  next
    case False
    with "1.prems" have "c \<in> set (decimal (n div 10)) \<or> c = char_of (48 + n mod 10)"
      by (auto simp: decimal.simps [of n])
    then show ?thesis
    proof
      assume "c \<in> set (decimal (n div 10))"
      with False "1.IH" show ?thesis by simp
    next
      assume "c = char_of (48 + n mod 10)"
      moreover have "48 + n mod 10 < 256" by simp
      ultimately show ?thesis
        by (simp add: of_char_char_of_nat)
    qed
  qed
qed

lemma decimal_not_Nil: "decimal n \<noteq> []"
  by (simp add: decimal.simps [of n])

lemma decimal_long: "10 \<le> n \<Longrightarrow> 2 \<le> length (decimal n)"
proof -
  assume "10 \<le> n"
  then have "decimal n = decimal (n div 10) @ [char_of (48 + n mod 10)]"
    by (simp add: decimal.simps [of n])
  moreover have "1 \<le> length (decimal (n div 10))"
    using decimal_not_Nil [of "n div 10"] by (cases "decimal (n div 10)") auto
  ultimately show ?thesis by simp
qed

lemma EncodeRune_hd:
  assumes "128 \<le> r" and "r < 1114112"
  shows "(192::nat) \<le> of_char (hd (EncodeRune r))"
proof -
  have a: "r < 2048 \<Longrightarrow> 192 + r div 64 < 256" by simp
  have b: "r < 65536 \<Longrightarrow> 224 + r div 4096 < 256" by simp
  have c: "240 + r div 262144 < 256" using assms(2) by simp
  show ?thesis
    using assms a b c by (simp add: EncodeRune_def of_char_char_of_nat)
qed

lemma string_of_uint32_hd:
  assumes "128 \<le> unat n"
  shows "(192::nat) \<le> of_char (hd (string_of_uint32 n))"
proof (cases "1114111 < unat n \<or> (55296 \<le> unat n \<and> unat n \<le> 57343)")
  case True
  then have "string_of_uint32 n = EncodeRune 65533"
    by (simp add: string_of_uint32_def Let_def)
  then show ?thesis
    using EncodeRune_hd [of 65533] by simp
next
  case False
  then have "string_of_uint32 n = EncodeRune (unat n)"
    by (auto simp: string_of_uint32_def Let_def)
  then show ?thesis
    using EncodeRune_hd [of "unat n"] assms False by simp
qed

text \<open>
  The string conversion of a number is never its decimal representation: below 128 it
  is the single byte of that value, from 128 on it starts with a byte \<open>\<ge> 0xC0\<close>.
\<close>

lemma string_of_uint32_not_decimal: "string_of_uint32 n \<noteq> decimal (unat n)"
proof (cases "unat n < 128")
  case True
  then have s: "string_of_uint32 n = [char_of (unat n)]"
    by (simp add: string_of_uint32_def Let_def EncodeRune_def)
  show ?thesis
  proof
    assume e: "string_of_uint32 n = decimal (unat n)"
    with s have "length (decimal (unat n)) = 1" by simp
    with decimal_long [of "unat n"] have small: "unat n < 10" by force
    then have "decimal (unat n) = [char_of (48 + unat n)]"
      by (simp add: decimal.simps [of "unat n"])
    with e s have "char_of (unat n) = (char_of (48 + unat n) :: char)" by simp
    then have "of_char (char_of (unat n) :: char) = (of_char (char_of (48 + unat n) :: char) :: nat)"
      by simp
    with small show False
      by (simp add: of_char_char_of_nat)
  qed
next
  case False
  then have "(192::nat) \<le> of_char (hd (string_of_uint32 n))"
    by (simp add: string_of_uint32_hd)
  moreover have "(of_char (hd (decimal (unat n))) :: nat) \<le> 57"
    using decimal_digits [of "hd (decimal (unat n))" "unat n"] decimal_not_Nil [of "unat n"]
    by simp
  ultimately show ?thesis by force
qed

lemma chars_600: "[char_of (201::nat), char_of (152::nat)] = [CHR 0xC9, CHR 0x98]"
  by code_simp

lemma string_of_600: "string_of_uint32 600 = [CHR 0xC9, CHR 0x98]"
  using chars_600 by (simp add: string_of_uint32_def Let_def EncodeRune_def)

lemma digits_600: "[char_of (54::nat), char_of (48::nat), char_of (48::nat)] = ''600''"
  by code_simp

lemma decimal_600: "decimal 600 = ''600''"
  using digits_600
  by (simp add: decimal.simps [of 600] decimal.simps [of 60] decimal.simps [of 6])

text \<open>
  Claim C3. The specification asks that an accepted preflight carries, for a non-zero
  \<open>MaxAge\<close>, the header \<open>Access-Control-Max-Age\<close> with the decimal representation of
  \<open>MaxAge\<close>, and no such header for \<open>MaxAge\<close> 0. The source writes
  \<^verbatim>\<open>string(c.MaxAge)\<close>: on every accepted preflight the header is set, when \<open>MaxAge\<close>
  is not 0, to the UTF-8 encoding of the code point \<open>MaxAge\<close>, which is never the
  decimal representation; for \<open>MaxAge\<close> 0 the header is left as it was.
\<close>

theorem max_age_header_not_decimal:
  assumes "Method r = MethodOptions"
    and "OriginSupported c (Header_Get (Header r) ''Origin'')"
    and "MethodSupported c (Header_Get (Header r) ''Access-Control-Request-Method'')"
    and "HeadersSupported U c
              (Split (Header_Get (Header r) ''Access-Control-Request-Headers'') '', '')"
  shows "wHeader (writer (WithCORSConfig U next c s r)) ''Access-Control-Max-Age'' =
           (if MaxAge c \<noteq> 0 then Some [string_of_uint32 (MaxAge c)]
            else wHeader (writer s) ''Access-Control-Max-Age'') \<and>
         string_of_uint32 (MaxAge c) \<noteq> decimal (unat (MaxAge c))"
  using assms by (simp add: WithCORSConfig_accept string_of_uint32_not_decimal)

text \<open>
  With \<open>MaxAge\<close> 600 the header value is the two bytes C9 98 (the letter U+0258),
  where the decimal representation is \<open>"600"\<close>.
\<close>

theorem max_age_600_witness:
  "Method sample_preflight = MethodOptions \<and>
   OriginSupported max_age_cfg (Header_Get (Header sample_preflight) ''Origin'') \<and>
   MethodSupported max_age_cfg
     (Header_Get (Header sample_preflight) ''Access-Control-Request-Method'') \<and>
   HeadersSupported (\<lambda>s. s) max_age_cfg
     (Split (Header_Get (Header sample_preflight) ''Access-Control-Request-Headers'') '', '') \<and>
   MaxAge max_age_cfg = 600 \<and>
   wHeader (writer (WithCORSConfig (\<lambda>s. s) (\<lambda>w r. w) max_age_cfg fresh sample_preflight))
     ''Access-Control-Max-Age'' = Some [[CHR 0xC9, CHR 0x98]] \<and>
   decimal (unat (MaxAge max_age_cfg)) = ''600''"
proof -
  have m: "Method sample_preflight = MethodOptions"
    by (simp add: sample_preflight_def)
  have og: "Header_Get (Header sample_preflight) ''Origin'' = ''https://a.test''"
    by (simp add: sample_preflight_def Header_Get_def)
  have mg: "Header_Get (Header sample_preflight) ''Access-Control-Request-Method'' = ''POST''"
    by (simp add: sample_preflight_def Header_Get_def)
  have hg: "Header_Get (Header sample_preflight) ''Access-Control-Request-Headers'' =
      ''content-type''"
    by (simp add: sample_preflight_def Header_Get_def)
  have a: "OriginSupported max_age_cfg (Header_Get (Header sample_preflight) ''Origin'')"
    by (simp add: og OriginSupported_def max_age_cfg_def)
  have b: "MethodSupported max_age_cfg
      (Header_Get (Header sample_preflight) ''Access-Control-Request-Method'')"
    by (simp add: mg MethodSupported_def max_age_cfg_def)
  have c: "HeadersSupported (\<lambda>s. s) max_age_cfg
      (Split (Header_Get (Header sample_preflight) ''Access-Control-Request-Headers'') '', '')"
    using headers_sample [of "\<lambda>s. s"]
    by (simp add: hg Split_sample HeadersSupported_def max_age_cfg_def)
  have ma: "MaxAge max_age_cfg = 600"
    by (simp add: max_age_cfg_def)
  show ?thesis
    using max_age_header_not_decimal [OF m a b c, of "\<lambda>w r. w" fresh] m a b c
    by (simp add: ma string_of_600 decimal_600)
qed

subsection \<open>A preflight without requested headers\<close>

lemma upper_content_type: "isASCII ''Content-Type'' \<and> map upper_byte ''Content-Type'' \<noteq> []"
  by code_simp

text \<open>
  Claim C4. The specification asks that a preflight without an
  \<open>Access-Control-Request-Headers\<close> header counts as asking for no header and is
  accepted when its origin and method pass. In the source the empty header value is
  split into the one-element list \<open>[""]\<close>, which is not the empty list that
  \<open>HeadersSupported\<close> lets pass: under the default configuration the preflight with
  \<open>Origin: *\<close> and \<open>Access-Control-Request-Method: GET\<close>, both supported, is
  answered with status 400.
\<close>

theorem absent_request_headers_rejected:
  "OriginSupported defaultCfg (Header_Get (Header bare_preflight) ''Origin'') \<and>
   MethodSupported defaultCfg
     (Header_Get (Header bare_preflight) ''Access-Control-Request-Method'') \<and>
   Header_Get (Header bare_preflight) ''Access-Control-Request-Headers'' = [] \<and>
   Split [] '', '' = [[]] \<and>
   HeadersSupported U defaultCfg [] \<and>
   \<not> HeadersSupported U defaultCfg (Split [] '', '') \<and>
   WithCORS U next fresh bare_preflight =
     fresh\<lparr>writer := (writer fresh)\<lparr>wStatus := Some StatusBadRequest\<rparr>\<rparr>"
proof -
  have m: "Method bare_preflight = MethodOptions"
    by (simp add: bare_preflight_def)
  have a: "OriginSupported defaultCfg (Header_Get (Header bare_preflight) ''Origin'')"
    by (simp add: bare_preflight_def Header_Get_def OriginSupported_def defaultCfg_def)
  have b: "MethodSupported defaultCfg
      (Header_Get (Header bare_preflight) ''Access-Control-Request-Method'')"
    by (simp add: bare_preflight_def Header_Get_def MethodSupported_def defaultCfg_def)
  have h: "Header_Get (Header bare_preflight) ''Access-Control-Request-Headers'' = []"
    by (simp add: bare_preflight_def Header_Get_def)
  have e: "ToUpper U [] = []"
    by (simp add: ToUpper_def isASCII_def)
  have c: "\<not> HeadersSupported U defaultCfg (Split [] '', '')"
    using upper_content_type
    by (simp add: Split_empty HeadersSupported_def defaultCfg_def e ToUpper_ascii)
  have d: "HeadersSupported U defaultCfg []"
    by (simp add: HeadersSupported_def)
  have "WithCORS U next fresh bare_preflight =
      fresh\<lparr>writer := WriteHeader StatusBadRequest (writer fresh)\<rparr>"
    unfolding WithCORS_def using m c h by (simp add: WithCORSConfig_reject)
  moreover have "wStatus (writer fresh) = None"
    by (simp add: fresh_def)
  ultimately show ?thesis
    using a b c d h by (simp add: WriteHeader_fresh Split_empty)
qed

subsection \<open>Requests that are not preflights\<close>
text \<open>
  Claim C5. For every configuration and every request whose method is not \<open>OPTIONS\<close>,
  the request is handed unchanged to the inner handler, once, and the response writer
  is exactly what the inner handler leaves: the middleware sets no header of its own.
\<close>

theorem non_preflight_forwarded:
  assumes "Method r \<noteq> MethodOptions"
  shows "writer (WithCORSConfig U next c s r) = next (writer s) r \<and>
         forwarded (WithCORSConfig U next c s r) = forwarded s @ [r]"
  using assms by (simp add: WithCORSConfig_def ServeHTTP_def)

theorem non_preflight_forwarded_witness:
  "Method sample_get \<noteq> MethodOptions \<and>
   writer (WithCORSConfig (\<lambda>s. s) sample_inner sample_cfg fresh sample_get) =
     \<lparr>wHeader = Map.empty, wStatus = Some StatusOK, wBody = ''hello''\<rparr> \<and>
   forwarded (WithCORSConfig (\<lambda>s. s) sample_inner sample_cfg fresh sample_get) = [sample_get]"
proof -
  have m: "Method sample_get \<noteq> MethodOptions"
    by (simp add: sample_get_def)
  show ?thesis
    using non_preflight_forwarded [OF m, of "\<lambda>s. s" sample_inner sample_cfg fresh] m
    by (simp add: fresh_def sample_inner_def WriteHeader_def)
qed

text \<open>
  Claim C6. For every configuration and every \<open>OPTIONS\<close> request, accepted or
  rejected, the inner handler is not invoked: no request is added to the list of
  forwarded requests, and the outcome is the same whatever the inner handler is.
\<close>

theorem preflight_terminal:
  assumes "Method r = MethodOptions"
  shows "forwarded (WithCORSConfig U next c s r) = forwarded s \<and>
         WithCORSConfig U next c s r = WithCORSConfig U next' c s r"
  using assms by (simp add: WithCORSConfig_def Let_def)

theorem preflight_terminal_witness:
  "Method sample_preflight = MethodOptions \<and>
   Method foreign_preflight = MethodOptions \<and>
   forwarded (WithCORSConfig (\<lambda>s. s) sample_inner sample_cfg fresh sample_preflight) = [] \<and>
   forwarded (WithCORSConfig (\<lambda>s. s) sample_inner sample_cfg fresh foreign_preflight) = []"
proof -
  have m: "Method sample_preflight = MethodOptions"
    by (simp add: sample_preflight_def)
  have m': "Method foreign_preflight = MethodOptions"
    by (simp add: foreign_preflight_def)
  show ?thesis
    using preflight_terminal [OF m, of "\<lambda>s. s" sample_inner sample_cfg fresh sample_inner]
      preflight_terminal [OF m', of "\<lambda>s. s" sample_inner sample_cfg fresh sample_inner] m m'
    by (simp add: fresh_def)
qed

subsection \<open>The header matcher\<close>

lemma of_char_upper_byte:
  "(of_char (upper_byte c) :: nat) =
     (if 97 \<le> (of_char c :: nat) \<and> (of_char c :: nat) \<le> 122 then of_char c - 32 else of_char c)"
proof (cases "97 \<le> (of_char c :: nat) \<and> (of_char c :: nat) \<le> 122")
  case True
  then have "(of_char c :: nat) - 32 < 256" by linarith
  then have "((of_char c :: nat) - 32) mod 256 = of_char c - 32" by (rule mod_less)
  with True show ?thesis by (simp add: upper_byte_def)
next
  case False
  then show ?thesis by (auto simp: upper_byte_def)
qed

lemma of_char_lower_byte:
  "(of_char (lower_byte c) :: nat) =
     (if 65 \<le> (of_char c :: nat) \<and> (of_char c :: nat) \<le> 90 then of_char c + 32 else of_char c)"
proof (cases "65 \<le> (of_char c :: nat) \<and> (of_char c :: nat) \<le> 90")
  case True
  then have "(of_char c :: nat) + 32 < 256" by linarith
  then have "((of_char c :: nat) + 32) mod 256 = of_char c + 32" by (rule mod_less)
  with True show ?thesis by (simp add: lower_byte_def)
next
  case False
  then show ?thesis by (auto simp: lower_byte_def)
qed

lemma case_folding_arith:
  fixes n m :: nat
  shows "((if 97 \<le> n \<and> n \<le> 122 then n - 32 else n) =
          (if 97 \<le> m \<and> m \<le> 122 then m - 32 else m)) \<longleftrightarrow>
         ((if 65 \<le> n \<and> n \<le> 90 then n + 32 else n) =
          (if 65 \<le> m \<and> m \<le> 90 then m + 32 else m))"
  by (simp split: if_splits) linarith

lemma upper_eq_iff_lower_eq: "upper_byte c = upper_byte d \<longleftrightarrow> lower_byte c = lower_byte d"
proof -
  have "upper_byte c = upper_byte d \<longleftrightarrow>
      (of_char (upper_byte c) :: nat) = of_char (upper_byte d)"
    by simp
  also have "\<dots> \<longleftrightarrow> (of_char (lower_byte c) :: nat) = of_char (lower_byte d)"
    unfolding of_char_upper_byte of_char_lower_byte by (rule case_folding_arith)
  also have "\<dots> \<longleftrightarrow> lower_byte c = lower_byte d"
    by simp
  finally show ?thesis .
qed

lemma map_upper_eq_iff: "map upper_byte a = map upper_byte b \<longleftrightarrow> ascii_ci_equal a b"
  unfolding ascii_ci_equal_def
proof (induction a arbitrary: b)
  case Nil
  then show ?case by simp
next
  case (Cons x xs)
  then show ?case
    by (cases b) (simp_all add: upper_eq_iff_lower_eq)
qed

lemma header_supported_iff:
  "header_supported U n hs \<longleftrightarrow> (\<exists>a\<in>set hs. ToUpper U n = ToUpper U a)"
  by (induction hs) auto

lemma headers_loop_iff:
  "headers_loop U c names \<longleftrightarrow> (\<forall>n\<in>set names. header_supported U n (AllowedHeaders c))"
  by (induction names) auto

text \<open>
  \<open>HeadersSupported\<close> is an all-match: true on the empty sequence, and otherwise true
  exactly when every name has, after \<open>ToUpper\<close>, an equal among the upper-cased
  allowed headers.
\<close>

lemma HeadersSupported_iff:
  "HeadersSupported U c names \<longleftrightarrow>
     (\<forall>n\<in>set names. \<exists>a\<in>set (AllowedHeaders c). ToUpper U n = ToUpper U a)"
  by (cases names) (simp_all add: HeadersSupported_def headers_loop_iff header_supported_iff)

text \<open>
  As long as the names and the allowed headers are ASCII strings, the comparison of
  the source is the ASCII case-insensitive one.
\<close>

lemma HeadersSupported_ascii:
  assumes "\<forall>n\<in>set names. isASCII n" and "\<forall>a\<in>set (AllowedHeaders c). isASCII a"
  shows "HeadersSupported U c names \<longleftrightarrow>
     (\<forall>n\<in>set names. \<exists>a\<in>set (AllowedHeaders c). ascii_ci_equal n a)"
  using assms by (simp add: HeadersSupported_iff ToUpper_ascii map_upper_eq_iff)

text \<open>
  The one-element list \<open>[""]\<close>, to which an absent header value is split, is
  supported only by a configuration that lists the empty string as an allowed header.
\<close>

lemma absent_headers_supported_iff:
  assumes "\<forall>a\<in>set (AllowedHeaders c). isASCII a"
  shows "HeadersSupported U c (Split [] '', '') \<longleftrightarrow> [] \<in> set (AllowedHeaders c)"
proof -
  have "ToUpper U [] = []"
    by (simp add: ToUpper_def isASCII_def)
  moreover have "\<And>a. a \<in> set (AllowedHeaders c) \<Longrightarrow> ([] = ToUpper U a) = (a = [])"
    using assms by (auto simp: ToUpper_ascii)
  ultimately show ?thesis
    by (auto simp: Split_empty HeadersSupported_iff)
qed

lemma dotless_facts:
  "\<not> isASCII dotless_name \<and> isASCII ''Authorization'' \<and>
   map upper_byte ''Authorization'' = ''AUTHORIZATION'' \<and>
   \<not> ascii_ci_equal dotless_name ''Authorization''"
  unfolding dotless_name_def by code_simp

text \<open>
  Claim C7. The specification, like the comment of \<open>HeadersSupported\<close>, asks for an
  ASCII case-insensitive match of every name against the allowed headers. The source
  compares \<^verbatim>\<open>strings.ToUpper\<close> of both sides, and on a string that is not pure ASCII
  \<^verbatim>\<open>strings.ToUpper\<close> applies the Unicode upper-case mapping, under which the dotless
  i (U+0131) becomes \<^verbatim>\<open>I\<close>. With any \<open>unicodeUpper\<close> that, as Go's does, sends
  \<open>dotless_name\<close> to \<^verbatim>\<open>AUTHORIZATION\<close>, the name is supported under the allowed header
  \<^verbatim>\<open>Authorization\<close> although it is not an ASCII case-insensitive match of it.
\<close>

theorem unicode_upper_accepts_non_ascii_name:
  assumes "U dotless_name = ''AUTHORIZATION''"
  shows "HeadersSupported U authorization_cfg [dotless_name] \<and>
         \<not> (\<exists>a\<in>set (AllowedHeaders authorization_cfg). ascii_ci_equal dotless_name a)"
  using assms dotless_facts
  by (simp add: HeadersSupported_def authorization_cfg_def ToUpper_def)

theorem unicode_upper_accepts_non_ascii_name_witness:
  "(\<lambda>s. ''AUTHORIZATION'') dotless_name = ''AUTHORIZATION'' \<and>
   HeadersSupported (\<lambda>s. ''AUTHORIZATION'') authorization_cfg [dotless_name] \<and>
   \<not> ascii_ci_equal dotless_name ''Authorization''"
  using unicode_upper_accepts_non_ascii_name [of "\<lambda>s. ''AUTHORIZATION''"]
  by (simp add: authorization_cfg_def)

subsection \<open>Missing headers and the default policy\<close>

text \<open>
  Claim C8. For every configuration \<open>OriginSupported ""\<close> and \<open>MethodSupported ""\<close>
  are false, and a preflight whose \<open>Origin\<close> or \<open>Access-Control-Request-Method\<close> header
  is missing or empty gets the same response as any rejected preflight: status 400 on
  the otherwise unchanged response writer.
\<close>

theorem empty_origin_or_method_rejected:
  "\<not> OriginSupported c [] \<and> \<not> MethodSupported c [] \<and>
   (Method r = MethodOptions \<and> wStatus (writer s) = None \<and>
    (Header_Get (Header r) ''Origin'' = [] \<or>
     Header_Get (Header r) ''Access-Control-Request-Method'' = []) \<longrightarrow>
    WithCORSConfig U next c s r = s\<lparr>writer := (writer s)\<lparr>wStatus := Some StatusBadRequest\<rparr>\<rparr>)"
proof (intro conjI impI)
  show "\<not> OriginSupported c []"
    by (simp add: OriginSupported_def)
  show "\<not> MethodSupported c []"
    by (simp add: MethodSupported_def)
next
  assume h: "Method r = MethodOptions \<and> wStatus (writer s) = None \<and>
    (Header_Get (Header r) ''Origin'' = [] \<or>
     Header_Get (Header r) ''Access-Control-Request-Method'' = [])"
  then have "\<not> (OriginSupported c (Header_Get (Header r) ''Origin'') \<and>
      MethodSupported c (Header_Get (Header r) ''Access-Control-Request-Method'') \<and>
      HeadersSupported U c
        (Split (Header_Get (Header r) ''Access-Control-Request-Headers'') '', ''))"
    by (auto simp: OriginSupported_def MethodSupported_def)
  with h have "WithCORSConfig U next c s r =
      s\<lparr>writer := WriteHeader StatusBadRequest (writer s)\<rparr>"
    by (simp add: WithCORSConfig_reject)
  with h show "WithCORSConfig U next c s r =
      s\<lparr>writer := (writer s)\<lparr>wStatus := Some StatusBadRequest\<rparr>\<rparr>"
    by (simp add: WriteHeader_fresh)
qed

theorem empty_origin_or_method_rejected_witness:
  "Method anonymous_preflight = MethodOptions \<and>
   wStatus (writer fresh) = None \<and>
   Header_Get (Header anonymous_preflight) ''Origin'' = [] \<and>
   WithCORSConfig (\<lambda>s. s) (\<lambda>w r. w) sample_cfg fresh anonymous_preflight =
     \<lparr>writer = \<lparr>wHeader = Map.empty, wStatus = Some StatusBadRequest, wBody = []\<rparr>,
      forwarded = []\<rparr>"
proof -
  have m: "Method anonymous_preflight = MethodOptions"
    by (simp add: anonymous_preflight_def)
  have f: "wStatus (writer fresh) = None"
    by (simp add: fresh_def)
  have a: "Header_Get (Header anonymous_preflight) ''Origin'' = []"
    by (simp add: anonymous_preflight_def Header_Get_def)
  show ?thesis
    using empty_origin_or_method_rejected
      [of sample_cfg anonymous_preflight fresh "\<lambda>s. s" "\<lambda>w r. w"] m f a
    by (simp add: fresh_def)
qed

text \<open>
  Claim C9. The default configuration of \<open>WithCORS\<close> has the origins \<open>["*"]\<close>, the
  nine HTTP methods, the header \<open>Content-Type\<close>, no credentials and \<open>MaxAge\<close> 0, and
  under it \<open>OriginSupported\<close> holds of the string \<open>"*"\<close> and of no other string.
\<close>

theorem default_policy:
  "AllowedOrigins defaultCfg = [''*''] \<and>
   set (AllowedMethods defaultCfg) =
     {''GET'', ''HEAD'', ''POST'', ''PUT'', ''PATCH'', ''DELETE'', ''CONNECT'', ''OPTIONS'',
      ''TRACE''} \<and>
   AllowedHeaders defaultCfg = [''Content-Type''] \<and>
   SupportsCredentials defaultCfg = False \<and>
   MaxAge defaultCfg = 0 \<and>
   WithCORS U next = WithCORSConfig U next defaultCfg \<and>
   (\<forall>origin. OriginSupported defaultCfg origin = (origin = ''*''))"
  by (auto simp: defaultCfg_def WithCORS_def OriginSupported_def)

section \<open>Properties of the mock document store\<close>

text \<open>
  The store made by \<open>OpenMock\<close> has its users collection, and \<open>StoreUser\<close> and
  \<open>DeleteUser\<close> keep the collections of the store they start from.
\<close>

lemma OpenMock_users: "db (OpenMock usersPath programsPath classesPath) usersPath \<noteq> None"
  by (simp add: OpenMock_def)

lemma StoreUser_keeps_collections:
  "StoreUser usersPath d u = Inr (d', err) \<Longrightarrow> dom (db d') = dom (db d)"
  by (auto simp: StoreUser_def split: option.splits if_splits)

lemma DeleteUser_keeps_collections:
  "DeleteUser usersPath d uid = (d', err) \<Longrightarrow> dom (db d') = dom (db d)"
  by (auto simp: DeleteUser_def split: option.splits if_splits)

text \<open>
  On the zero value of \<open>MockDB\<close>, whose users collection is the nil map, \<open>StoreUser\<close>
  panics and nothing is loaded.
\<close>

theorem store_then_load_nil_collection:
  "store_then_load ''users'' zero_MockDB \<lparr>UID = ''u1''\<rparr> = Inl AssignmentToEntryInNilMap \<and>
   store_then_load ''users'' zero_MockDB \<lparr>UID = ''u1''\<rparr> \<noteq> Inr (Inr \<lparr>UID = ''u1''\<rparr>)"
  by (simp add: store_then_load_def StoreUser_def zero_MockDB_def)

text \<open>
  Claim C10, amended. For every user \<open>u\<close> and every store in which the users
  collection exists (as in every store made by \<open>OpenMock\<close>), \<open>StoreUser u\<close> followed
  by \<open>LoadUser (UID u)\<close> returns \<open>u\<close> with a nil error.
\<close>

theorem store_then_load_user:
  assumes "db d usersPath \<noteq> None"
  shows "store_then_load usersPath d u = Inr (Inr u)"
  using assms by (auto simp: store_then_load_def StoreUser_def LoadUser_def)

theorem store_then_load_user_witness:
  "db (OpenMock ''users'' ''programs'' ''classes'' :: (User, unit) MockDB) ''users'' \<noteq> None \<and>
   store_then_load ''users'' (OpenMock ''users'' ''programs'' ''classes'' :: (User, unit) MockDB)
     \<lparr>UID = ''u1''\<rparr> = Inr (Inr \<lparr>UID = ''u1''\<rparr>)"
  using store_then_load_user
    [of "OpenMock ''users'' ''programs'' ''classes'' :: (User, unit) MockDB" "''users''"
      "\<lparr>UID = ''u1''\<rparr>"]
  by (simp add: OpenMock_def)

end
